theory Spec2Isabelle
  imports Main "HOL-Library.Sublist"
begin

section \<open>Values shared by the service and the controller\<close>

text \<open>
  Every value the code throws is built with \<^verbatim>\<open>new Error(msg)\<close>; the controller reads
  only its \<^verbatim>\<open>message\<close>. A thrown value is therefore an \<open>Error\<close> carrying its message,
  and a call that may throw returns \<open>js_error + 'a\<close> (\<open>Inl\<close> is the throw or the rejected
  promise, \<open>Inr\<close> the returned or resolved value).
\<close>

datatype js_error = Error (message: string)

text \<open>
  \<^verbatim>\<open>interface ImageData { base64: string; mimeType: string }\<close> (geminiService.ts) and
  \<^verbatim>\<open>interface ImageState { file: File; base64: string; mimeType: string }\<close> (App).
  The controller passes an \<open>ImageState\<close> where the service expects an \<open>ImageData\<close>;
  the record extension keeps that structural subtyping. A browser \<open>File\<close> is only stored,
  never inspected, so it is identified by its name; the field \<^verbatim>\<open>file\<close> is \<open>imageFile\<close> here.
\<close>

datatype File = File string

record ImageData =
  base64 :: string
  mimeType :: string

record ImageState = ImageData +
  imageFile :: File

section \<open>The generation service: geminiService.ts\<close>

text \<open>
  The request and response shapes of the SDK, with the fields the code writes and reads.
  An optional field (\<^verbatim>\<open>?.\<close> in the source) is an \<open>option\<close>. The inline blob of a
  part has \<^verbatim>\<open>data\<close> and \<^verbatim>\<open>mimeType\<close>, at the types the code uses them:
  \<^verbatim>\<open>mimeType.startsWith\<close> is called unguarded and \<^verbatim>\<open>data\<close> is returned as the
  \<^verbatim>\<open>Promise<string>\<close> value.
\<close>

record Blob =
  data :: string
  blob_mimeType :: string

record Part =
  inlineData :: "Blob option"
  part_text :: "string option"

record Content =
  parts :: "Part list option"

record Candidate =
  content :: "Content option"

record GenerateContentResponse =
  candidates :: "Candidate list option"

datatype Modality = MODALITY_UNSPECIFIED | TEXT | IMAGE | AUDIO

record GenerateContentConfig =
  responseModalities :: "Modality list"

record GenerateContentParameters =
  model :: string
  contents :: Content
  config :: GenerateContentConfig

text \<open>
  What the service does to the outside world, in order: constructing the client with the
  key, sending a request, and logging a caught error.
\<close>

datatype service_event =
    New_GoogleGenAI string
  | Call_generateContent GenerateContentParameters
  | Console_error_api string js_error

text \<open>Lines 19 to 35: the three request parts.\<close>

definition personImagePart :: "'a ImageData_scheme \<Rightarrow> Part" where
  "personImagePart personImage =
     \<lparr>inlineData = Some \<lparr>data = base64 personImage, blob_mimeType = mimeType personImage\<rparr>,
      part_text = None\<rparr>"

definition clothingImagePart :: "'a ImageData_scheme \<Rightarrow> Part" where
  "clothingImagePart clothingImage =
     \<lparr>inlineData = Some \<lparr>data = base64 clothingImage, blob_mimeType = mimeType clothingImage\<rparr>,
      part_text = None\<rparr>"

definition textPart :: Part where
  "textPart =
     \<lparr>inlineData = None,
      part_text = Some (''Using the two images provided, superimpose the clothing item from the second image onto the person in the first image. ''
        @ ''The fit should be realistic and natural. ''
        @ ''The output must be a high-quality, photorealistic image showing only the final result of the person wearing the clothing.'')\<rparr>"

text \<open>Lines 38 to 46: the argument of \<^verbatim>\<open>ai.models.generateContent\<close>.\<close>

definition generateContentRequest ::
  "'a ImageData_scheme \<Rightarrow> 'b ImageData_scheme \<Rightarrow> GenerateContentParameters" where
  "generateContentRequest personImage clothingImage =
     \<lparr>model = ''gemini-2.5-flash-image'',
      contents = \<lparr>parts = Some [personImagePart personImage, clothingImagePart clothingImage, textPart]\<rparr>,
      config = \<lparr>responseModalities = [IMAGE]\<rparr>\<rparr>"

text \<open>
  Line 50, the predicate given to \<^verbatim>\<open>find\<close>:
  \<^verbatim>\<open>part.inlineData && part.inlineData.mimeType.startsWith('image/')\<close>.
\<close>

definition isImagePart :: "Part \<Rightarrow> bool" where
  "isImagePart part =
     (case inlineData part of
        None \<Rightarrow> False
      | Some blob \<Rightarrow> prefix ''image/'' (blob_mimeType blob))"

text \<open>
  Lines 49 to 51: \<^verbatim>\<open>response.candidates?.[0]?.content?.parts?.find(...)\<close>. Each
  \<^verbatim>\<open>?.\<close> yields \<^verbatim>\<open>undefined\<close> (here \<open>None\<close>) when its left side is missing;
  \<^verbatim>\<open>[0]\<close> of an empty array is missing too. \<^verbatim>\<open>Array.prototype.find\<close> returns the
  first element satisfying the predicate, as \<^const>\<open>find\<close> does.
\<close>

definition findImagePart :: "GenerateContentResponse \<Rightarrow> Part option" where
  "findImagePart response =
     (case candidates response of
        None \<Rightarrow> None
      | Some cs \<Rightarrow>
          (case cs of
             [] \<Rightarrow> None
           | c # _ \<Rightarrow>
               (case content c of
                  None \<Rightarrow> None
                | Some ct \<Rightarrow>
                    (case parts ct of
                       None \<Rightarrow> None
                     | Some ps \<Rightarrow> find isImagePart ps))))"

text \<open>Lines 53 to 57: return the payload, or throw the no-image error.\<close>

definition noValidImageMessage :: string where
  "noValidImageMessage =
     ''The API did not return a valid image. The response might have been blocked or did not meet safety guidelines.''"

definition extractImage :: "GenerateContentResponse \<Rightarrow> js_error + string" where
  "extractImage response =
     (case findImagePart response of
        None \<Rightarrow> Inl (Error noValidImageMessage)
      | Some imagePart \<Rightarrow>
          (case inlineData imagePart of
             None \<Rightarrow> Inl (Error noValidImageMessage)
           | Some blob \<Rightarrow> Inr (data blob)))"

text \<open>
  Lines 37 to 57, the body of the \<^verbatim>\<open>try\<close>: the awaited call, which may reject, then the
  extraction, which may throw. Both throws are inside the same \<^verbatim>\<open>try\<close>.
\<close>

definition tryBlock :: "(js_error + GenerateContentResponse) \<Rightarrow> js_error + string" where
  "tryBlock outcome =
     (case outcome of
        Inl e \<Rightarrow> Inl e
      | Inr response \<Rightarrow> extractImage response)"

definition apiKeyNotSetMessage :: string where
  "apiKeyNotSetMessage = ''API_KEY environment variable not set.''"

definition failedToGenerateMessage :: string where
  "failedToGenerateMessage =
     ''Failed to generate image. The model may be unavailable or the request was invalid.''"

text \<open>
  \<^verbatim>\<open>generateVirtualTryOnImage\<close>. \<open>API_KEY\<close> is \<^verbatim>\<open>process.env.API_KEY\<close>: \<open>None\<close> when the
  variable is not set; \<^verbatim>\<open>!process.env.API_KEY\<close> also holds for the empty string. The
  remote service is the parameter \<open>generateContent\<close>, given the key the client was built with
  and the request; it rejects (\<open>Inl\<close>) or resolves with a response (\<open>Inr\<close>). The result is
  the list of outside effects, in order, and the outcome of the promise.

  The \<^verbatim>\<open>catch\<close> of lines 58 to 61 receives whatever the \<^verbatim>\<open>try\<close> threw, logs it and throws
  a new error with a fixed message.
\<close>

definition generateVirtualTryOnImage ::
  "string option \<Rightarrow> (string \<Rightarrow> GenerateContentParameters \<Rightarrow> js_error + GenerateContentResponse)
     \<Rightarrow> 'a ImageData_scheme \<Rightarrow> 'b ImageData_scheme \<Rightarrow> service_event list \<times> (js_error + string)" where
  "generateVirtualTryOnImage API_KEY generateContent personImage clothingImage =
     (case API_KEY of
        None \<Rightarrow> ([], Inl (Error apiKeyNotSetMessage))
      | Some key \<Rightarrow>
          if key = [] then ([], Inl (Error apiKeyNotSetMessage))
          else
            let request = generateContentRequest personImage clothingImage in
            (case tryBlock (generateContent key request) of
               Inr resultBase64 \<Rightarrow>
                 ([New_GoogleGenAI key, Call_generateContent request], Inr resultBase64)
             | Inl error \<Rightarrow>
                 ([New_GoogleGenAI key, Call_generateContent request,
                   Console_error_api ''Error calling Gemini API:'' error],
                  Inl (Error failedToGenerateMessage))))"

section \<open>The workflow controller: App\<close>

text \<open>
  The five \<^verbatim>\<open>useState\<close> cells of \<^verbatim>\<open>App\<close> (lines 54 to 58), each \<^verbatim>\<open>T | null\<close> an
  \<open>option\<close>.
\<close>

record AppState =
  personImage :: "ImageState option"
  clothingImage :: "ImageState option"
  generatedImage :: "string option"
  isLoading :: bool
  error :: "string option"

text \<open>The second argument of \<^verbatim>\<open>handleFileChange\<close>: \<^verbatim>\<open>'person' | 'clothing'\<close>.\<close>

datatype upload_type = Person | Clothing

text \<open>
  A handler is the list of its effects in program order: each call of a state setter,
  each \<^verbatim>\<open>console.error\<close>, and the call of the generation service together with what that
  call did to the outside world. The handlers read the state once, from the closure they
  were created in, and write it only through the setters. A setter of \<^verbatim>\<open>useState\<close> does
  not change what is exposed: it queues an update, and React processes the queue at its
  next render, which comes only after the running handler has yielded (at an
  \<^verbatim>\<open>await\<close>, or by returning).
\<close>

datatype event =
    setPersonImage "ImageState option"
  | setClothingImage "ImageState option"
  | setGeneratedImage "string option"
  | setIsLoading bool
  | setError "string option"
  | console_error js_error
  | call_generateVirtualTryOnImage ImageState ImageState "service_event list"

text \<open>
  How a render processes one effect of the queue: the update of a setter replaces its
  cell; logging and the service call have queued nothing.
\<close>

fun apply_event :: "event \<Rightarrow> AppState \<Rightarrow> AppState" where
  "apply_event (setPersonImage v) s = s\<lparr>personImage := v\<rparr>"
| "apply_event (setClothingImage v) s = s\<lparr>clothingImage := v\<rparr>"
| "apply_event (setGeneratedImage v) s = s\<lparr>generatedImage := v\<rparr>"
| "apply_event (setIsLoading v) s = s\<lparr>isLoading := v\<rparr>"
| "apply_event (setError v) s = s\<lparr>error := v\<rparr>"
| "apply_event (console_error e) s = s"
| "apply_event (call_generateVirtualTryOnImage p c evs) s = s"

text \<open>
  \<open>run es s\<close> is the state rendered from \<open>s\<close> once every update queued by the effects
  \<open>es\<close> has been processed, first to last. For the whole list of a handler it is the
  settled state, after the handler has finished and React has rendered. It is not what is
  exposed while the handler is still running: that is the \<open>Screen\<close> below.
\<close>

fun run :: "event list \<Rightarrow> AppState \<Rightarrow> AppState" where
  "run [] s = s"
| "run (e # es) s = run es (apply_event e s)"

text \<open>
  What the user sees while a handler runs: the state of the last render, and the updates
  queued since. A render processes the queue and empties it.
\<close>

record Screen =
  exposed :: AppState
  queued :: "event list"

definition rendered :: "AppState \<Rightarrow> Screen" where
  "rendered s = \<lparr>exposed = s, queued = []\<rparr>"

definition render :: "Screen \<Rightarrow> Screen" where
  "render sc = rendered (run (queued sc) (exposed sc))"

text \<open>
  One effect of a running handler. A setter call only joins the queue. Logging changes
  nothing. The service is called under \<^verbatim>\<open>await\<close> (line 91): once the call has been made the
  handler yields, and React renders what was queued.
\<close>

fun perform :: "event \<Rightarrow> Screen \<Rightarrow> Screen" where
  "perform (setPersonImage v) sc = sc\<lparr>queued := queued sc @ [setPersonImage v]\<rparr>"
| "perform (setClothingImage v) sc = sc\<lparr>queued := queued sc @ [setClothingImage v]\<rparr>"
| "perform (setGeneratedImage v) sc = sc\<lparr>queued := queued sc @ [setGeneratedImage v]\<rparr>"
| "perform (setIsLoading v) sc = sc\<lparr>queued := queued sc @ [setIsLoading v]\<rparr>"
| "perform (setError v) sc = sc\<lparr>queued := queued sc @ [setError v]\<rparr>"
| "perform (console_error e) sc = sc"
| "perform (call_generateVirtualTryOnImage p c evs) sc = render sc"

text \<open>
  The screen at the moment the generation service is invoked: the effects before the
  first call have been performed, the call itself has not. \<open>None\<close> when the handler never
  calls the service.
\<close>

fun screen_before_call :: "event list \<Rightarrow> Screen \<Rightarrow> Screen option" where
  "screen_before_call [] sc = None"
| "screen_before_call (call_generateVirtualTryOnImage p c evs # es) sc = Some sc"
| "screen_before_call (e # es) sc = screen_before_call es (perform e sc)"

text \<open>
  \<^verbatim>\<open>handleFileChange\<close> (lines 60 to 78). \<^verbatim>\<open>fileToBase64\<close> lives in
  \<^verbatim>\<open>utils/fileUtils\<close>; it is a parameter here, rejecting (\<open>Inl\<close>) or resolving with the
  \<^verbatim>\<open>{ base64, mimeType }\<close> object (\<open>Inr\<close>).
\<close>

definition processFileMessage :: string where
  "processFileMessage = ''Failed to process file. Please try another image.''"

definition handleFileChange ::
  "(File \<Rightarrow> js_error + ImageData) \<Rightarrow> File option \<Rightarrow> upload_type \<Rightarrow> event list" where
  "handleFileChange fileToBase64 selected upload =
     (case selected of
        None \<Rightarrow>
          (if upload = Person then [setPersonImage None] else [setClothingImage None])
      | Some f \<Rightarrow>
          (case fileToBase64 f of
             Inr encoded \<Rightarrow>
               let newState = \<lparr>base64 = base64 encoded, mimeType = mimeType encoded, imageFile = f\<rparr>
               in if upload = Person then [setPersonImage (Some newState)]
                  else [setClothingImage (Some newState)]
           | Inl err \<Rightarrow>
               [setError (Some processFileMessage), console_error err]))"

text \<open>
  \<^verbatim>\<open>handleTryOn\<close> (lines 80 to 99). The guard returns early when a slot is
  \<^verbatim>\<open>null\<close>. Otherwise the three setters run, the service is called, and the
  \<^verbatim>\<open>try\<close>/\<^verbatim>\<open>catch\<close>/\<^verbatim>\<open>finally\<close> publishes the result or the error and then clears the
  loading flag. \<open>generate\<close> is the imported \<^verbatim>\<open>generateVirtualTryOnImage\<close>, returning what
  it did outside and how its promise settled.
\<close>

definition uploadBothMessage :: string where
  "uploadBothMessage = ''Please upload both images before trying on.''"

definition handleTryOn ::
  "(ImageState \<Rightarrow> ImageState \<Rightarrow> service_event list \<times> (js_error + string)) \<Rightarrow> AppState \<Rightarrow> event list" where
  "handleTryOn generate s =
     (case personImage s of
        None \<Rightarrow> [setError (Some uploadBothMessage)]
      | Some person \<Rightarrow>
          (case clothingImage s of
             None \<Rightarrow> [setError (Some uploadBothMessage)]
           | Some clothing \<Rightarrow>
               [setIsLoading True, setError None, setGeneratedImage None]
               @ (case generate person clothing of
                    (outside, outcome) \<Rightarrow>
                      call_generateVirtualTryOnImage person clothing outside
                      # (case outcome of
                           Inr resultBase64 \<Rightarrow>
                             [setGeneratedImage (Some (''data:image/png;base64,'' @ resultBase64))]
                         | Inl err \<Rightarrow>
                             [setError (Some (''An error occurred: '' @ message err @ ''. Please try again.'')),
                              console_error err]))
               @ [setIsLoading False]))"

section \<open>Sample inputs\<close>

text \<open>Two uploads, a few service responses and stand-ins for the remote calls.\<close>

definition personJpg :: ImageState where
  "personJpg = \<lparr>base64 = ''cGVyc29u'', mimeType = ''image/jpeg'', imageFile = File ''person.jpg''\<rparr>"

definition shirtPng :: ImageState where
  "shirtPng = \<lparr>base64 = ''c2hpcnQ='', mimeType = ''image/png'', imageFile = File ''shirt.png''\<rparr>"

definition textOnlyPart :: Part where
  "textOnlyPart = \<lparr>inlineData = None, part_text = Some ''Sorry, I cannot help with that.''\<rparr>"

definition pdfPart :: Part where
  "pdfPart = \<lparr>inlineData = Some \<lparr>data = ''JVBERg=='', blob_mimeType = ''application/pdf''\<rparr>, part_text = None\<rparr>"

definition jpegPart :: Part where
  "jpegPart = \<lparr>inlineData = Some \<lparr>data = ''Zm9v'', blob_mimeType = ''image/jpeg''\<rparr>, part_text = None\<rparr>"

definition pngPart :: Part where
  "pngPart = \<lparr>inlineData = Some \<lparr>data = ''YmFy'', blob_mimeType = ''image/png''\<rparr>, part_text = None\<rparr>"

definition responseOf :: "Part list \<Rightarrow> GenerateContentResponse" where
  "responseOf ps = \<lparr>candidates = Some [\<lparr>content = Some \<lparr>parts = Some ps\<rparr>\<rparr>]\<rparr>"

definition respondingService ::
  "GenerateContentResponse \<Rightarrow> string \<Rightarrow> GenerateContentParameters \<Rightarrow> js_error + GenerateContentResponse" where
  "respondingService response key request = Inr response"

definition rejectingService ::
  "js_error \<Rightarrow> string \<Rightarrow> GenerateContentParameters \<Rightarrow> js_error + GenerateContentResponse" where
  "rejectingService e key request = Inl e"

definition resolvingGenerate ::
  "string \<Rightarrow> ImageState \<Rightarrow> ImageState \<Rightarrow> service_event list \<times> (js_error + string)" where
  "resolvingGenerate P person clothing = ([], Inr P)"

definition rejectingGenerate ::
  "string \<Rightarrow> ImageState \<Rightarrow> ImageState \<Rightarrow> service_event list \<times> (js_error + string)" where
  "rejectingGenerate M person clothing = ([], Inl (Error M))"

definition rejectingFileToBase64 :: "File \<Rightarrow> js_error + ImageData" where
  "rejectingFileToBase64 f = Inl (Error ''read failed'')"

definition bothUploaded :: AppState where
  "bothUploaded =
     \<lparr>personImage = Some personJpg, clothingImage = Some shirtPng,
      generatedImage = None, isLoading = False, error = None\<rparr>"

definition afterFailedAttempt :: AppState where
  "afterFailedAttempt =
     \<lparr>personImage = Some personJpg, clothingImage = Some shirtPng,
      generatedImage = Some ''data:image/png;base64,b2xk'', isLoading = False,
      error = Some ''An error occurred: old. Please try again.''\<rparr>"

definition resultShownUploadFailed :: AppState where
  "resultShownUploadFailed =
     \<lparr>personImage = Some personJpg, clothingImage = Some shirtPng,
      generatedImage = Some ''data:image/png;base64,b2xk'', isLoading = False,
      error = Some ''Failed to process file. Please try another image.''\<rparr>"

definition resultShownPersonRemoved :: AppState where
  "resultShownPersonRemoved =
     \<lparr>personImage = None, clothingImage = Some shirtPng,
      generatedImage = Some ''data:image/png;base64,Zm9v'', isLoading = False, error = None\<rparr>"

definition onlyPersonUploaded :: AppState where
  "onlyPersonUploaded =
     \<lparr>personImage = Some personJpg, clothingImage = None,
      generatedImage = None, isLoading = False, error = None\<rparr>"

section \<open>Properties of the generation service\<close>

text \<open>\<^const>\<open>find\<close> passes over a prefix in which nothing satisfies the predicate.\<close>

lemma find_after_skipped:
  "\<forall>q \<in> set skipped. \<not> P q \<Longrightarrow> P p \<Longrightarrow> find P (skipped @ p # rest) = Some p"
  by (induction skipped) simp_all

text \<open>
  C7. If the service credential \<open>API_KEY\<close> is absent from the process environment,
  \<open>generateVirtualTryOnImage\<close> fails with the configuration error (the error whose message
  is "API_KEY environment variable not set.") before the client is constructed or any
  request is sent, and sends nothing afterwards: its list of outside effects is empty.
  The same holds for an empty key, which \<^verbatim>\<open>!process.env.API_KEY\<close> treats alike.
\<close>

theorem generateVirtualTryOnImage_no_api_key:
  "generateVirtualTryOnImage None generateContent person clothing
     = ([], Inl (Error ''API_KEY environment variable not set.''))
   \<and> generateVirtualTryOnImage (Some []) generateContent person clothing
     = ([], Inl (Error ''API_KEY environment variable not set.''))"
  by (simp add: generateVirtualTryOnImage_def apiKeyNotSetMessage_def)

text \<open>
  C4. \<open>generateVirtualTryOnImage\<close> scans the parts of the first candidate in order and
  returns the payload of the first part that has inline data whose media type starts with
  "image/"; the parts before it, which have no inline data or a media type that does not
  start with "image/", are skipped. Exactly one request is sent on the way.
\<close>

theorem generateVirtualTryOnImage_returns_first_image_part:
  assumes "key \<noteq> []"
    and "generateContent key (generateContentRequest person clothing) = Inr response"
    and "candidates response = Some (cand # cands)"
    and "content cand = Some ct"
    and "parts ct = Some (skipped @ part # rest)"
    and "\<forall>q \<in> set skipped. inlineData q = None
           \<or> (\<exists>b. inlineData q = Some b \<and> \<not> prefix ''image/'' (blob_mimeType b))"
    and "inlineData part = Some blob"
    and "prefix ''image/'' (blob_mimeType blob)"
  shows "generateVirtualTryOnImage (Some key) generateContent person clothing
           = ([New_GoogleGenAI key, Call_generateContent (generateContentRequest person clothing)],
              Inr (data blob))"
proof -
  have skip: "\<forall>q \<in> set skipped. \<not> isImagePart q"
    using assms(6) by (auto simp: isImagePart_def)
  have hit: "isImagePart part"
    using assms(7,8) by (simp add: isImagePart_def)
  have "findImagePart response = Some part"
    using assms(3,4,5) find_after_skipped[OF skip hit]
    by (simp add: findImagePart_def)
  then have "extractImage response = Inr (data blob)"
    using assms(7) by (simp add: extractImage_def)
  then show ?thesis
    using assms(1,2) by (simp add: generateVirtualTryOnImage_def tryBlock_def)
qed

theorem generateVirtualTryOnImage_returns_first_image_part_witness:
  "generateVirtualTryOnImage (Some ''key'')
      (respondingService (responseOf [textOnlyPart, pdfPart, jpegPart, pngPart])) personJpg shirtPng
     = ([New_GoogleGenAI ''key'', Call_generateContent (generateContentRequest personJpg shirtPng)],
        Inr ''Zm9v'')"
proof -
  let ?response = "responseOf [textOnlyPart, pdfPart, jpegPart, pngPart]"
  have h1: "''key'' \<noteq> []" by simp
  have h2: "respondingService ?response ''key'' (generateContentRequest personJpg shirtPng) = Inr ?response"
    by (simp add: respondingService_def)
  have h3: "candidates ?response
              = Some (\<lparr>content = Some \<lparr>parts = Some [textOnlyPart, pdfPart, jpegPart, pngPart]\<rparr>\<rparr> # [])"
    by (simp add: responseOf_def)
  have h4: "content \<lparr>content = Some \<lparr>parts = Some [textOnlyPart, pdfPart, jpegPart, pngPart]\<rparr>\<rparr>
              = Some \<lparr>parts = Some [textOnlyPart, pdfPart, jpegPart, pngPart]\<rparr>"
    by simp
  have h5: "parts \<lparr>parts = Some [textOnlyPart, pdfPart, jpegPart, pngPart]\<rparr>
              = Some ([textOnlyPart, pdfPart] @ jpegPart # [pngPart])"
    by simp
  have h6: "\<forall>q \<in> set [textOnlyPart, pdfPart]. inlineData q = None
           \<or> (\<exists>b. inlineData q = Some b \<and> \<not> prefix ''image/'' (blob_mimeType b))"
    by (simp add: textOnlyPart_def pdfPart_def)
  have h7: "inlineData jpegPart = Some \<lparr>data = ''Zm9v'', blob_mimeType = ''image/jpeg''\<rparr>"
    by (simp add: jpegPart_def)
  have h8: "prefix ''image/'' (blob_mimeType \<lparr>data = ''Zm9v'', blob_mimeType = ''image/jpeg''\<rparr>)"
    by simp
  show ?thesis
    using generateVirtualTryOnImage_returns_first_image_part
      [where generateContent = "respondingService ?response" and person = personJpg
         and clothing = shirtPng, OF h1 h2 h3 h4 h5 h6 h7 h8]
    by simp
qed

text \<open>
  C1. A response without a usable image part is meant to fail with a message that
  describes that condition and differs from the message of a transport failure. The
  descriptive error of line 56 is thrown inside the \<^verbatim>\<open>try\<close> whose \<^verbatim>\<open>catch\<close> replaces every
  error by the generic one, so on a response holding only a text part the function fails
  with exactly the error it raises when the remote call rejects, and the controller shows
  the same message in both cases.
\<close>

theorem empty_response_surfaces_transport_message:
  "snd (generateVirtualTryOnImage (Some ''key'')
          (respondingService (responseOf [textOnlyPart])) personJpg shirtPng)
     = Inl (Error ''Failed to generate image. The model may be unavailable or the request was invalid.'')
   \<and> snd (generateVirtualTryOnImage (Some ''key'')
          (rejectingService (Error ''fetch failed'')) personJpg shirtPng)
     = Inl (Error ''Failed to generate image. The model may be unavailable or the request was invalid.'')
   \<and> error (run (handleTryOn (generateVirtualTryOnImage (Some ''key'')
                 (respondingService (responseOf [textOnlyPart]))) bothUploaded) bothUploaded)
     = error (run (handleTryOn (generateVirtualTryOnImage (Some ''key'')
                 (rejectingService (Error ''fetch failed''))) bothUploaded) bothUploaded)"
  by (simp add: generateVirtualTryOnImage_def tryBlock_def extractImage_def findImagePart_def
      isImagePart_def respondingService_def rejectingService_def responseOf_def textOnlyPart_def
      failedToGenerateMessage_def handleTryOn_def bothUploaded_def)

section \<open>Properties of the workflow controller\<close>

text \<open>
  C2. With both upload slots populated, the first effect of \<open>handleTryOn\<close> sets the loading
  indicator to true, the last effect sets it to false, and it is false in the final
  state, whatever the generation service does: resolve or throw.
\<close>

theorem handleTryOn_loading_bracket:
  assumes "personImage s = Some person" and "clothingImage s = Some clothing"
  shows "hd (handleTryOn generate s) = setIsLoading True
       \<and> isLoading (run [hd (handleTryOn generate s)] s)
       \<and> last (handleTryOn generate s) = setIsLoading False
       \<and> \<not> isLoading (run (handleTryOn generate s) s)"
proof (cases "generate person clothing")
  case (Pair outside outcome)
  then show ?thesis
    using assms by (cases outcome) (simp_all add: handleTryOn_def)
qed

theorem handleTryOn_loading_bracket_witness:
  "hd (handleTryOn (rejectingGenerate ''boom'') bothUploaded) = setIsLoading True
   \<and> isLoading (run [hd (handleTryOn (rejectingGenerate ''boom'') bothUploaded)] bothUploaded)
   \<and> last (handleTryOn (rejectingGenerate ''boom'') bothUploaded) = setIsLoading False
   \<and> \<not> isLoading (run (handleTryOn (rejectingGenerate ''boom'') bothUploaded) bothUploaded)"
proof -
  have h1: "personImage bothUploaded = Some personJpg" by (simp add: bothUploaded_def)
  have h2: "clothingImage bothUploaded = Some shirtPng" by (simp add: bothUploaded_def)
  show ?thesis
    by (rule handleTryOn_loading_bracket [OF h1 h2])
qed

text \<open>
  C3, as stated: with a slot absent, \<open>handleTryOn\<close> leaves the workflow idle (no result, not
  loading). That fails when a result from an earlier attempt is shown and a slot has been
  cleared since: the guard returns without touching the result.
\<close>

theorem handleTryOn_missing_slot_keeps_result:
  "personImage resultShownPersonRemoved = None
   \<and> generatedImage (run (handleTryOn (resolvingGenerate ''YmFy'') resultShownPersonRemoved)
        resultShownPersonRemoved) = Some ''data:image/png;base64,Zm9v''"
  by (simp add: handleTryOn_def resultShownPersonRemoved_def)

text \<open>
  C3, amended. With at least one slot absent, \<open>handleTryOn\<close> performs the single effect of
  setting the error message to "Please upload both images before trying on.": the service
  is not called, and the result, the loading indicator and both slots are left as they
  were. A state with no result and not loading therefore stays so.
\<close>

theorem handleTryOn_missing_slot:
  assumes "personImage s = None \<or> clothingImage s = None"
  shows "handleTryOn generate s = [setError (Some ''Please upload both images before trying on.'')]
       \<and> run (handleTryOn generate s) s
           = s\<lparr>error := Some ''Please upload both images before trying on.''\<rparr>
       \<and> generatedImage (run (handleTryOn generate s) s) = generatedImage s
       \<and> isLoading (run (handleTryOn generate s) s) = isLoading s"
  using assms
  by (auto simp: handleTryOn_def uploadBothMessage_def split: option.splits)

theorem handleTryOn_missing_slot_witness:
  "handleTryOn (resolvingGenerate ''Zm9v'') onlyPersonUploaded
     = [setError (Some ''Please upload both images before trying on.'')]
   \<and> error (run (handleTryOn (resolvingGenerate ''Zm9v'') onlyPersonUploaded) onlyPersonUploaded)
     = Some ''Please upload both images before trying on.''
   \<and> generatedImage (run (handleTryOn (resolvingGenerate ''Zm9v'') onlyPersonUploaded) onlyPersonUploaded)
     = None
   \<and> \<not> isLoading (run (handleTryOn (resolvingGenerate ''Zm9v'') onlyPersonUploaded) onlyPersonUploaded)"
proof -
  have h: "personImage onlyPersonUploaded = None \<or> clothingImage onlyPersonUploaded = None"
    by (simp add: onlyPersonUploaded_def)
  have idle: "generatedImage onlyPersonUploaded = None" "\<not> isLoading onlyPersonUploaded"
    by (simp_all add: onlyPersonUploaded_def)
  show ?thesis
    using handleTryOn_missing_slot [OF h, of "resolvingGenerate ''Zm9v''"] idle
    by simp
qed

text \<open>
  C5. If the generation service resolves with the payload \<open>P\<close>, \<open>handleTryOn\<close> ends with the
  result "data:image/png;base64," followed by \<open>P\<close>, no error and the loading indicator
  false; for \<open>P\<close> = "Zm9v" the result is "data:image/png;base64,Zm9v".
\<close>

theorem handleTryOn_success:
  assumes "personImage s = Some person" and "clothingImage s = Some clothing"
    and "generate person clothing = (outside, Inr P)"
  shows "generatedImage (run (handleTryOn generate s) s) = Some (''data:image/png;base64,'' @ P)
       \<and> error (run (handleTryOn generate s) s) = None
       \<and> \<not> isLoading (run (handleTryOn generate s) s)"
  using assms by (simp add: handleTryOn_def)

theorem handleTryOn_success_witness:
  "generatedImage (run (handleTryOn (resolvingGenerate ''Zm9v'') bothUploaded) bothUploaded)
     = Some ''data:image/png;base64,Zm9v''
   \<and> error (run (handleTryOn (resolvingGenerate ''Zm9v'') bothUploaded) bothUploaded) = None
   \<and> \<not> isLoading (run (handleTryOn (resolvingGenerate ''Zm9v'') bothUploaded) bothUploaded)"
proof -
  have h1: "personImage bothUploaded = Some personJpg" by (simp add: bothUploaded_def)
  have h2: "clothingImage bothUploaded = Some shirtPng" by (simp add: bothUploaded_def)
  have h3: "resolvingGenerate ''Zm9v'' personJpg shirtPng = ([], Inr ''Zm9v'')"
    by (simp add: resolvingGenerate_def)
  show ?thesis
    using handleTryOn_success [where generate = "resolvingGenerate ''Zm9v''", OF h1 h2 h3]
    by simp
qed

text \<open>
  C6. If the generation service throws an error with message \<open>M\<close>, \<open>handleTryOn\<close> ends with
  the error message "An error occurred: \<open>M\<close>. Please try again.", which contains \<open>M\<close>, with
  no result and the loading indicator false.
\<close>

theorem handleTryOn_failure:
  assumes "personImage s = Some person" and "clothingImage s = Some clothing"
    and "generate person clothing = (outside, Inl (Error M))"
  shows "error (run (handleTryOn generate s) s)
           = Some (''An error occurred: '' @ M @ ''. Please try again.'')
       \<and> sublist M (''An error occurred: '' @ M @ ''. Please try again.'')
       \<and> generatedImage (run (handleTryOn generate s) s) = None
       \<and> \<not> isLoading (run (handleTryOn generate s) s)"
proof -
  have contains: "sublist M (''An error occurred: '' @ M @ ''. Please try again.'')"
    by (rule sublist_appendI)
  have state: "error (run (handleTryOn generate s) s)
                 = Some (''An error occurred: '' @ M @ ''. Please try again.'')
       \<and> generatedImage (run (handleTryOn generate s) s) = None
       \<and> \<not> isLoading (run (handleTryOn generate s) s)"
    using assms by (simp add: handleTryOn_def)
  from contains state show ?thesis by blast
qed

theorem handleTryOn_failure_witness:
  "error (run (handleTryOn (rejectingGenerate ''network down'') afterFailedAttempt) afterFailedAttempt)
     = Some ''An error occurred: network down. Please try again.''
   \<and> generatedImage (run (handleTryOn (rejectingGenerate ''network down'') afterFailedAttempt)
        afterFailedAttempt) = None
   \<and> \<not> isLoading (run (handleTryOn (rejectingGenerate ''network down'') afterFailedAttempt)
        afterFailedAttempt)"
proof -
  have h1: "personImage afterFailedAttempt = Some personJpg" by (simp add: afterFailedAttempt_def)
  have h2: "clothingImage afterFailedAttempt = Some shirtPng" by (simp add: afterFailedAttempt_def)
  have h3: "rejectingGenerate ''network down'' personJpg shirtPng = ([], Inl (Error ''network down''))"
    by (simp add: rejectingGenerate_def)
  show ?thesis
    using handleTryOn_failure [where generate = "rejectingGenerate ''network down''", OF h1 h2 h3]
    by simp
qed

text \<open>
  C8, as stated: when the guard passes, the previous error and the previous result are
  cleared before the generation service is invoked, so that no attempt begins while a
  stale result or error is still exposed. That fails: the three setters of lines 86 to 88
  only queue their updates, and the service is entered at line 91 before the handler has
  yielded. With a result and an error on screen from before, both are still exposed at
  the moment of the call; the clearing is in the queue.
\<close>

theorem handleTryOn_stale_exposed_at_call:
  "screen_before_call (handleTryOn (resolvingGenerate ''Zm9v'') resultShownUploadFailed)
       (rendered resultShownUploadFailed)
     = Some \<lparr>exposed = resultShownUploadFailed,
              queued = [setIsLoading True, setError None, setGeneratedImage None]\<rparr>
   \<and> error resultShownUploadFailed = Some ''Failed to process file. Please try another image.''
   \<and> generatedImage resultShownUploadFailed = Some ''data:image/png;base64,b2xk''"
  by (simp add: handleTryOn_def resolvingGenerate_def rendered_def resultShownUploadFailed_def)

text \<open>
  C8, amended. When both slots are populated, \<open>handleTryOn\<close> calls \<^verbatim>\<open>setIsLoading(true)\<close>,
  \<^verbatim>\<open>setError(null)\<close> and \<^verbatim>\<open>setGeneratedImage(null)\<close> before it invokes the generation
  service, with the two slots as arguments. At the moment of the call the state exposed
  is still the one the handler started with and the three updates are queued; the render
  that follows when the handler yields exposes no error, no result and the loading
  indicator.
\<close>

theorem handleTryOn_queues_clearing_before_call:
  assumes "personImage s = Some person" and "clothingImage s = Some clothing"
  shows "(\<exists>outside rest.
            handleTryOn generate s
              = [setIsLoading True, setError None, setGeneratedImage None]
                @ call_generateVirtualTryOnImage person clothing outside # rest)
       \<and> screen_before_call (handleTryOn generate s) (rendered s)
           = Some \<lparr>exposed = s, queued = [setIsLoading True, setError None, setGeneratedImage None]\<rparr>
       \<and> error (exposed (render
             \<lparr>exposed = s, queued = [setIsLoading True, setError None, setGeneratedImage None]\<rparr>)) = None
       \<and> generatedImage (exposed (render
             \<lparr>exposed = s, queued = [setIsLoading True, setError None, setGeneratedImage None]\<rparr>)) = None
       \<and> isLoading (exposed (render
             \<lparr>exposed = s, queued = [setIsLoading True, setError None, setGeneratedImage None]\<rparr>))"
proof (cases "generate person clothing")
  case (Pair outside outcome)
  have trace: "handleTryOn generate s
                 = [setIsLoading True, setError None, setGeneratedImage None]
                   @ call_generateVirtualTryOnImage person clothing outside
                     # (case outcome of
                          Inr resultBase64 \<Rightarrow>
                            [setGeneratedImage (Some (''data:image/png;base64,'' @ resultBase64))]
                        | Inl err \<Rightarrow>
                            [setError (Some (''An error occurred: '' @ message err @ ''. Please try again.'')),
                             console_error err])
                     @ [setIsLoading False]"
    using assms Pair by (simp add: handleTryOn_def)
  have order: "\<exists>outside rest.
            handleTryOn generate s
              = [setIsLoading True, setError None, setGeneratedImage None]
                @ call_generateVirtualTryOnImage person clothing outside # rest"
    using trace by blast
  have at_call: "screen_before_call (handleTryOn generate s) (rendered s)
           = Some \<lparr>exposed = s, queued = [setIsLoading True, setError None, setGeneratedImage None]\<rparr>"
    by (simp add: trace rendered_def)
  have after: "error (exposed (render
             \<lparr>exposed = s, queued = [setIsLoading True, setError None, setGeneratedImage None]\<rparr>)) = None
       \<and> generatedImage (exposed (render
             \<lparr>exposed = s, queued = [setIsLoading True, setError None, setGeneratedImage None]\<rparr>)) = None
       \<and> isLoading (exposed (render
             \<lparr>exposed = s, queued = [setIsLoading True, setError None, setGeneratedImage None]\<rparr>))"
    by (simp add: render_def rendered_def)
  from order at_call after show ?thesis by blast
qed

theorem handleTryOn_queues_clearing_before_call_witness:
  "(\<exists>outside rest.
       handleTryOn (rejectingGenerate ''fetch failed'') resultShownUploadFailed
         = [setIsLoading True, setError None, setGeneratedImage None]
           @ call_generateVirtualTryOnImage personJpg shirtPng outside # rest)
   \<and> screen_before_call (handleTryOn (rejectingGenerate ''fetch failed'') resultShownUploadFailed)
        (rendered resultShownUploadFailed)
       = Some \<lparr>exposed = resultShownUploadFailed,
                queued = [setIsLoading True, setError None, setGeneratedImage None]\<rparr>
   \<and> error (exposed (render
         \<lparr>exposed = resultShownUploadFailed,
          queued = [setIsLoading True, setError None, setGeneratedImage None]\<rparr>)) = None
   \<and> generatedImage (exposed (render
         \<lparr>exposed = resultShownUploadFailed,
          queued = [setIsLoading True, setError None, setGeneratedImage None]\<rparr>)) = None
   \<and> isLoading (exposed (render
         \<lparr>exposed = resultShownUploadFailed,
          queued = [setIsLoading True, setError None, setGeneratedImage None]\<rparr>))"
proof -
  have h1: "personImage resultShownUploadFailed = Some personJpg"
    by (simp add: resultShownUploadFailed_def)
  have h2: "clothingImage resultShownUploadFailed = Some shirtPng"
    by (simp add: resultShownUploadFailed_def)
  show ?thesis
    by (rule handleTryOn_queues_clearing_before_call [OF h1 h2])
qed

text \<open>
  C9. On success the exposed result is "data:image/png;base64," followed by the payload of
  the part the service picked, whatever media type that part declares: a part declared
  image/jpeg is still published under image/png.
\<close>

theorem handleTryOn_result_labelled_png:
  assumes "personImage s = Some person" and "clothingImage s = Some clothing"
    and "key \<noteq> []"
    and "generateContent key (generateContentRequest person clothing) = Inr response"
    and "findImagePart response = Some part"
    and "inlineData part = Some blob"
  shows "generatedImage
           (run (handleTryOn (generateVirtualTryOnImage (Some key) generateContent) s) s)
         = Some (''data:image/png;base64,'' @ data blob)"
proof -
  have "extractImage response = Inr (data blob)"
    using assms(5,6) by (simp add: extractImage_def)
  then have "generateVirtualTryOnImage (Some key) generateContent person clothing
               = ([New_GoogleGenAI key, Call_generateContent (generateContentRequest person clothing)],
                  Inr (data blob))"
    using assms(3,4) by (simp add: generateVirtualTryOnImage_def tryBlock_def)
  then show ?thesis
    using assms(1,2) by (simp add: handleTryOn_def)
qed

theorem handleTryOn_result_labelled_png_witness:
  "blob_mimeType \<lparr>data = ''Zm9v'', blob_mimeType = ''image/jpeg''\<rparr> = ''image/jpeg''
   \<and> generatedImage
        (run (handleTryOn (generateVirtualTryOnImage (Some ''key'')
                (respondingService (responseOf [jpegPart]))) bothUploaded) bothUploaded)
      = Some ''data:image/png;base64,Zm9v''"
proof -
  have h1: "personImage bothUploaded = Some personJpg" by (simp add: bothUploaded_def)
  have h2: "clothingImage bothUploaded = Some shirtPng" by (simp add: bothUploaded_def)
  have h3: "''key'' \<noteq> []" by simp
  have h4: "respondingService (responseOf [jpegPart]) ''key'' (generateContentRequest personJpg shirtPng)
              = Inr (responseOf [jpegPart])"
    by (simp add: respondingService_def)
  have h5: "findImagePart (responseOf [jpegPart]) = Some jpegPart"
    by (simp add: findImagePart_def responseOf_def isImagePart_def jpegPart_def)
  have h6: "inlineData jpegPart = Some \<lparr>data = ''Zm9v'', blob_mimeType = ''image/jpeg''\<rparr>"
    by (simp add: jpegPart_def)
  show ?thesis
    using handleTryOn_result_labelled_png
      [where generateContent = "respondingService (responseOf [jpegPart])", OF h1 h2 h3 h4 h5 h6]
    by simp
qed

text \<open>
  C10. When \<open>handleFileChange\<close> receives a file and the encoding rejects, its effects are
  setting the error message and logging: both upload slots, the generated result and the
  loading indicator are unchanged.
\<close>

theorem handleFileChange_encoding_failure:
  assumes "fileToBase64 f = Inl err"
  shows "handleFileChange fileToBase64 (Some f) upload
           = [setError (Some ''Failed to process file. Please try another image.''), console_error err]
       \<and> run (handleFileChange fileToBase64 (Some f) upload) s
           = s\<lparr>error := Some ''Failed to process file. Please try another image.''\<rparr>
       \<and> personImage (run (handleFileChange fileToBase64 (Some f) upload) s) = personImage s
       \<and> clothingImage (run (handleFileChange fileToBase64 (Some f) upload) s) = clothingImage s
       \<and> generatedImage (run (handleFileChange fileToBase64 (Some f) upload) s) = generatedImage s
       \<and> isLoading (run (handleFileChange fileToBase64 (Some f) upload) s) = isLoading s"
  using assms by (simp add: handleFileChange_def processFileMessage_def)

theorem handleFileChange_encoding_failure_witness:
  "personImage (run (handleFileChange rejectingFileToBase64 (Some (File ''broken.png'')) Person)
       afterFailedAttempt) = Some personJpg
   \<and> clothingImage (run (handleFileChange rejectingFileToBase64 (Some (File ''broken.png'')) Person)
       afterFailedAttempt) = Some shirtPng
   \<and> generatedImage (run (handleFileChange rejectingFileToBase64 (Some (File ''broken.png'')) Person)
       afterFailedAttempt) = Some ''data:image/png;base64,b2xk''
   \<and> error (run (handleFileChange rejectingFileToBase64 (Some (File ''broken.png'')) Person)
       afterFailedAttempt) = Some ''Failed to process file. Please try another image.''"
proof -
  have h: "rejectingFileToBase64 (File ''broken.png'') = Inl (Error ''read failed'')"
    by (simp add: rejectingFileToBase64_def)
  show ?thesis
    using handleFileChange_encoding_failure
      [of rejectingFileToBase64 "File ''broken.png''" "Error ''read failed''" Person afterFailedAttempt,
       OF h]
    by (simp add: afterFailedAttempt_def)
qed

end
